theory Spec2Isabelle
  imports Main "HOL-Library.AList"
begin

section \<open>Go types as the router sees them through package reflect\<close>

text \<open>
  The router (router.go) inspects handlers with package \<^verbatim>\<open>reflect\<close>. A Go type is a
  value of \<open>gotype\<close>; the fragment covers bool, int, string, pointers, slices, maps,
  structs, functions, interfaces and defined (named) types. A defined type carries its
  package path, its name, the names of its methods with value receiver, the names of its
  methods with pointer receiver, and its underlying type. A method is identified by its
  name: \<open>''Error''\<close> stands for \<^verbatim>\<open>Error() string\<close>.
\<close>

datatype Kind = KBool | KInt | KString | KPtr | KSlice | KMap | KStruct | KFunc | KInterface

datatype gotype =
    TBool
  | TInt
  | TString
  | TPtr gotype
  | TSlice gotype
  | TMap gotype gotype
  | TStruct "(string \<times> gotype) list"
  | TFunc "gotype list" "gotype list"
  | TInterface "string list"
  | TNamed string string "string list" "string list" gotype

text \<open>\<^verbatim>\<open>Type.Kind()\<close>: the kind of a defined type is the kind of its underlying type.\<close>

fun Kind_of :: "gotype \<Rightarrow> Kind" where
  "Kind_of TBool = KBool"
| "Kind_of TInt = KInt"
| "Kind_of TString = KString"
| "Kind_of (TPtr t) = KPtr"
| "Kind_of (TSlice t) = KSlice"
| "Kind_of (TMap k v) = KMap"
| "Kind_of (TStruct fs) = KStruct"
| "Kind_of (TFunc ins outs) = KFunc"
| "Kind_of (TInterface ms) = KInterface"
| "Kind_of (TNamed p n vms pms u) = Kind_of u"

fun underlying :: "gotype \<Rightarrow> gotype" where
  "underlying (TNamed p n vms pms u) = underlying u"
| "underlying t = t"

text \<open>\<^verbatim>\<open>Type.Name()\<close>: the name of a defined or predeclared type, empty otherwise.\<close>

fun Name_of :: "gotype \<Rightarrow> string" where
  "Name_of (TNamed p n vms pms u) = n"
| "Name_of TBool = ''bool''"
| "Name_of TInt = ''int''"
| "Name_of TString = ''string''"
| "Name_of t = ''''"

text \<open>\<^verbatim>\<open>Type.PkgPath()\<close>.\<close>

fun PkgPath :: "gotype \<Rightarrow> string" where
  "PkgPath (TNamed p n vms pms u) = p"
| "PkgPath t = ''''"

text \<open>
  \<^verbatim>\<open>Type.Elem()\<close> panics unless the kind is pointer, slice or map (of the fragment);
  \<open>None\<close> is that panic.
\<close>

fun Elem :: "gotype \<Rightarrow> gotype option" where
  "Elem t = (case underlying t of TPtr e \<Rightarrow> Some e | TSlice e \<Rightarrow> Some e
             | TMap k e \<Rightarrow> Some e | _ \<Rightarrow> None)"

text \<open>\<^verbatim>\<open>NumIn\<close>, \<^verbatim>\<open>NumOut\<close>, \<^verbatim>\<open>In(i)\<close>, \<^verbatim>\<open>Out(i)\<close> panic unless the kind is Func.\<close>

fun ins_of :: "gotype \<Rightarrow> gotype list option" where
  "ins_of t = (case underlying t of TFunc ins outs \<Rightarrow> Some ins | _ \<Rightarrow> None)"

fun outs_of :: "gotype \<Rightarrow> gotype list option" where
  "outs_of t = (case underlying t of TFunc ins outs \<Rightarrow> Some outs | _ \<Rightarrow> None)"

definition NumIn :: "gotype \<Rightarrow> nat" where
  "NumIn t = (case ins_of t of Some ins \<Rightarrow> length ins | None \<Rightarrow> 0)"

definition NumOut :: "gotype \<Rightarrow> nat" where
  "NumOut t = (case outs_of t of Some outs \<Rightarrow> length outs | None \<Rightarrow> 0)"

definition In :: "gotype \<Rightarrow> nat \<Rightarrow> gotype" where
  "In t i = (case ins_of t of Some ins \<Rightarrow> ins ! i | None \<Rightarrow> t)"

definition Out :: "gotype \<Rightarrow> nat \<Rightarrow> gotype" where
  "Out t i = (case outs_of t of Some outs \<Rightarrow> outs ! i | None \<Rightarrow> t)"

text \<open>
  Method sets (Go specification): a defined type has its value-receiver methods (and the
  methods of its underlying interface, if it is one); a pointer to a defined type has the
  value-receiver and the pointer-receiver methods; an interface has its methods.
\<close>

fun iface_methods :: "gotype \<Rightarrow> string list" where
  "iface_methods (TInterface ms) = ms"
| "iface_methods t = []"

fun methodSet :: "gotype \<Rightarrow> string list" where
  "methodSet (TNamed p n vms pms u) = vms @ iface_methods (underlying u)"
| "methodSet (TPtr (TNamed p n vms pms u)) =
     (if Kind_of u = KInterface \<or> Kind_of u = KPtr then [] else vms @ pms)"
| "methodSet (TInterface ms) = ms"
| "methodSet t = []"

text \<open>\<^verbatim>\<open>t.Implements(u)\<close> for an interface type \<open>u\<close>.\<close>

definition Implements :: "gotype \<Rightarrow> gotype \<Rightarrow> bool" where
  "Implements t u = (set (iface_methods (underlying u)) \<subseteq> set (methodSet t))"

text \<open>The predeclared interface \<^verbatim>\<open>error\<close>: \<^verbatim>\<open>reflect.TypeOf((*error)(nil)).Elem()\<close>.\<close>

definition errorInterface :: gotype where
  "errorInterface = TNamed [] ''error'' [] [] (TInterface [''Error''])"

text \<open>
  Assignability of a value of type \<open>v\<close> to a variable of type \<open>t\<close> (Go specification,
  without channels, type parameters and the untyped nil): identical types; identical
  underlying types where one of the two is not a named type; or \<open>t\<close> is an interface that
  \<open>v\<close> implements. \<^verbatim>\<open>reflect.Value.Call\<close> panics on an argument that is not assignable.
\<close>

fun isNamed :: "gotype \<Rightarrow> bool" where
  "isNamed (TNamed p n vms pms u) = True"
| "isNamed TBool = True"
| "isNamed TInt = True"
| "isNamed TString = True"
| "isNamed t = False"

definition AssignableTo :: "gotype \<Rightarrow> gotype \<Rightarrow> bool" where
  "AssignableTo v t \<longleftrightarrow>
     v = t
     \<or> (underlying v = underlying t \<and> (\<not> isNamed v \<or> \<not> isNamed t))
     \<or> (Kind_of t = KInterface \<and> Implements v t)"

text \<open>The execution context type of the SDK, \<^verbatim>\<open>sdk.Context\<close> (a struct; its fields are opaque here).\<close>

definition sdkPkg :: string where
  "sdkPkg = ''github.com/wabisaby/wabisaby-plugin-sdk''"

definition sdkContext :: gotype where
  "sdkContext = TNamed sdkPkg ''Context'' [] [''GetStub'', ''GetSession''] (TStruct [])"

section \<open>Go values\<close>

text \<open>
  Errors built by the router with \<^verbatim>\<open>fmt.Errorf\<close>, one constructor for each format string
  of router.go, with the arguments of the format.
\<close>

datatype router_error =
    AlreadyRegistered string
  | NotAFunction Kind
  | BadInputCount nat
  | BadOutputCount nat
  | FirstArgNotContext gotype
  | SecondReturnNotError gotype
  | UnknownCommand string
  | MarshalFailed string
  | UnmarshalFailed string string

text \<open>
  A dynamic Go value, as an \<^verbatim>\<open>interface{}\<close> holds it. \<open>VNil\<close> is the nil interface;
  \<open>VNilOf t\<close> is the nil value of the pointer, slice, map or function type \<open>t\<close> (a typed
  nil: not a nil interface); \<open>VSlice t vs\<close> is a non-nil slice of the slice type \<open>t\<close>,
  \<open>VMap t kvs\<close> a non-nil map of the map type \<open>t\<close> with string keys (an association
  list with distinct keys); \<open>VStruct t fs\<close> a struct of type \<open>t\<close> with its fields in
  declaration order; \<open>VPtr t v\<close> a non-nil pointer of type \<open>*t\<close> to a variable holding
  \<open>v\<close>; \<open>VNamed t v\<close> a value of the defined type \<open>t\<close> whose underlying type is bool,
  int or string; \<open>VErr e\<close> an error that the router built.
\<close>

datatype goval =
    VNil
  | VBool bool
  | VInt int
  | VString string
  | VSlice gotype "goval list"
  | VMap gotype "(string \<times> goval) list"
  | VStruct gotype "(string \<times> goval) list"
  | VPtr gotype goval
  | VNilOf gotype
  | VNamed gotype goval
  | VErr router_error

text \<open>The dynamic type; \<open>None\<close> for the nil interface.\<close>

definition fmtErrorType :: gotype where
  "fmtErrorType = TPtr (TNamed ''fmt'' ''wrapError'' [] [''Error'', ''Unwrap''] (TStruct []))"

fun TypeOf :: "goval \<Rightarrow> gotype option" where
  "TypeOf VNil = None"
| "TypeOf (VBool b) = Some TBool"
| "TypeOf (VInt i) = Some TInt"
| "TypeOf (VString s) = Some TString"
| "TypeOf (VSlice t vs) = Some t"
| "TypeOf (VMap t kvs) = Some t"
| "TypeOf (VStruct t fs) = Some t"
| "TypeOf (VPtr t v) = Some (TPtr t)"
| "TypeOf (VNilOf t) = Some t"
| "TypeOf (VNamed t v) = Some t"
| "TypeOf (VErr e) = Some fmtErrorType"

text \<open>Panics are outcomes of their own: the caller gets no return value.\<close>

datatype 'a outcome = Panic string | Return 'a

text \<open>
  \<^verbatim>\<open>Value.IsNil()\<close> on a value whose static kind is \<open>k\<close>: whether an interface is the nil
  interface, whether a pointer, slice, map or function is nil; it panics on every other
  kind.
\<close>

definition IsNil :: "Kind \<Rightarrow> goval \<Rightarrow> bool outcome" where
  "IsNil k v =
     (if k = KInterface then Return (v = VNil)
      else if k = KPtr \<or> k = KSlice \<or> k = KMap \<or> k = KFunc
        then Return (case v of VNilOf t \<Rightarrow> True | _ \<Rightarrow> False)
      else Panic ''reflect: call of reflect.Value.IsNil on non-nillable Value'')"

section \<open>Command metadata (command.go)\<close>

type_synonym ParamType = string

record ParameterMetadata =
  Name :: string
  Type :: ParamType
  Description :: string
  Required :: bool
  Default :: goval

record ReturnTypeMetadata =
  Name :: string
  Description :: string
  Schema :: "(string \<times> ParamType) list"

record CommandExample =
  Description :: string
  Args :: goval
  Result :: goval

record CommandMetadata =
  Name :: string
  Description :: string
  Parameters :: "ParameterMetadata list"
  ReturnType :: "ReturnTypeMetadata option"
  Examples :: "CommandExample list"

text \<open>A \<^verbatim>\<open>CommandOption\<close> is a function on the metadata; \<open>None\<close> is the nil function.\<close>

type_synonym CommandOption = "(CommandMetadata \<Rightarrow> CommandMetadata) option"

definition WithDescription :: "string \<Rightarrow> CommandOption" where
  "WithDescription desc = Some (\<lambda>m. m\<lparr>CommandMetadata.Description := desc\<rparr>)"

definition WithParameters :: "ParameterMetadata list \<Rightarrow> CommandOption" where
  "WithParameters params = Some (\<lambda>m. m\<lparr>Parameters := params\<rparr>)"

definition WithExamples :: "CommandExample list \<Rightarrow> CommandOption" where
  "WithExamples examples = Some (\<lambda>m. m\<lparr>Examples := examples\<rparr>)"

definition WithReturnType :: "string \<Rightarrow> (string \<times> ParamType) list \<Rightarrow> CommandOption" where
  "WithReturnType name schema =
     Some (\<lambda>m. m\<lparr>ReturnType := Some \<lparr>ReturnTypeMetadata.Name = name,
                                        ReturnTypeMetadata.Description = [],
                                        Schema = schema\<rparr>\<rparr>)"

section \<open>Handlers, the registry and Register (router.go)\<close>

text \<open>
  An argument of \<^verbatim>\<open>handlerVal.Call\<close>: the value of the context pointer
  (\<^verbatim>\<open>reflect.ValueOf(ctx)\<close>, of type \<^verbatim>\<open>*sdk.Context\<close>; the context itself is opaque) or a
  Go value.
\<close>

datatype 'c callarg = CtxArg 'c | ValArg goval

fun callargType :: "'c callarg \<Rightarrow> gotype option" where
  "callargType (CtxArg c) = Some (TPtr sdkContext)"
| "callargType (ValArg v) = TypeOf v"

text \<open>
  A \<^verbatim>\<open>CommandHandler\<close> is an \<^verbatim>\<open>interface{}\<close>: the nil interface, or a value with its
  type. For a function type the value has a body, \<open>None\<close> for the nil function; the body
  maps the call arguments to the outputs, or panics. For the other types only the type
  matters to the router. A body is a function of its arguments: a handler that calls
  back into the router, or that does not return, is outside the model.
\<close>

datatype 'c CommandHandler =
    NilHandler
  | Handler gotype "('c callarg list \<Rightarrow> goval list outcome) option"

record 'c registeredCommand =
  metadata :: CommandMetadata
  handler :: "'c CommandHandler"
  argType :: "gotype option"

text \<open>
  The registry \<^verbatim>\<open>commands map[string]*registeredCommand\<close> as an association list with
  distinct keys; the lock \<^verbatim>\<open>mu\<close> has no sequential meaning and is left out.
\<close>

record 'c CommandRouter =
  commands :: "(string \<times> 'c registeredCommand) list"

definition NewCommandRouter :: "'c CommandRouter" where
  "NewCommandRouter = \<lparr>commands = []\<rparr>"

text \<open>The loop \<^verbatim>\<open>for _, opt := range opts { opt(&metadata) }\<close>; calling a nil option panics.\<close>

fun applyOpts :: "CommandOption list \<Rightarrow> CommandMetadata \<Rightarrow> CommandMetadata outcome" where
  "applyOpts [] m = Return m"
| "applyOpts (None # os) m = Panic ''invalid memory address or nil pointer dereference''"
| "applyOpts (Some opt # os) m = applyOpts os (opt m)"

text \<open>Lines 97-105 of router.go: the argument type of a handler with two inputs.\<close>

definition detectArgType :: "gotype \<Rightarrow> gotype option" where
  "detectArgType handlerType =
     (if NumIn handlerType = 2 then
        (let argType = In handlerType 1 in
         if Kind_of argType = KPtr then Elem argType else Some argType)
      else None)"

text \<open>
  \<^verbatim>\<open>Register\<close> returns its error (\<open>VNil\<close> for nil) and the router after the call.
  \<^verbatim>\<open>reflect.ValueOf(nil).Type()\<close> panics: the zero Value has no type.
\<close>

definition Register ::
  "'c CommandRouter \<Rightarrow> string \<Rightarrow> 'c CommandHandler \<Rightarrow> CommandOption list
     \<Rightarrow> (goval \<times> 'c CommandRouter) outcome" where
  "Register r name h opts =
     (if map_of (commands r) name \<noteq> None then Return (VErr (AlreadyRegistered name), r)
      else case h of
        NilHandler \<Rightarrow> Panic ''reflect: call of reflect.Value.Type on zero Value''
      | Handler handlerType body \<Rightarrow>
          if Kind_of handlerType \<noteq> KFunc
            then Return (VErr (NotAFunction (Kind_of handlerType)), r)
          else if NumIn handlerType < 1 \<or> NumIn handlerType > 2
            then Return (VErr (BadInputCount (NumIn handlerType)), r)
          else if NumOut handlerType \<noteq> 2
            then Return (VErr (BadOutputCount (NumOut handlerType)), r)
          else let ctxType = In handlerType 0 in
            if Kind_of ctxType \<noteq> KPtr \<or> map_option Name_of (Elem ctxType) \<noteq> Some ''Context''
              then Return (VErr (FirstArgNotContext ctxType), r)
            else let errType = Out handlerType 1 in
              if \<not> Implements errType errorInterface
                then Return (VErr (SecondReturnNotError errType), r)
              else case applyOpts opts \<lparr>CommandMetadata.Name = name,
                                          CommandMetadata.Description = [],
                                          Parameters = [], ReturnType = None,
                                          Examples = []\<rparr> of
                  Panic msg \<Rightarrow> Panic msg
                | Return md \<Rightarrow>
                    Return (VNil,
                      r\<lparr>commands := AList.update name
                          \<lparr>metadata = md, handler = h,
                           argType = detectArgType handlerType\<rparr> (commands r)\<rparr>))"

definition GetCommands :: "'c CommandRouter \<Rightarrow> CommandMetadata list" where
  "GetCommands r = map (\<lambda>kv. metadata (snd kv)) (commands r)"

definition HasCommand :: "'c CommandRouter \<Rightarrow> string \<Rightarrow> bool" where
  "HasCommand r name = (map_of (commands r) name \<noteq> None)"

definition CommandCount :: "'c CommandRouter \<Rightarrow> nat" where
  "CommandCount r = length (commands r)"

section \<open>The argument binder and the invocation (router.go, invokeHandler)\<close>

text \<open>The zero value of a type, as \<^verbatim>\<open>reflect.New\<close> allocates it.\<close>

fun retype :: "gotype \<Rightarrow> goval \<Rightarrow> goval" where
  "retype t (VStruct u fs) = VStruct t fs"
| "retype t (VSlice u vs) = VSlice t vs"
| "retype t (VMap u kvs) = VMap t kvs"
| "retype t (VNilOf u) = VNilOf t"
| "retype t VNil = VNil"
| "retype t (VNamed u v) = VNamed t v"
| "retype t v = VNamed t v"

fun Zero :: "gotype \<Rightarrow> goval" and zeroFields :: "(string \<times> gotype) list \<Rightarrow> (string \<times> goval) list" where
  "Zero TBool = VBool False"
| "Zero TInt = VInt 0"
| "Zero TString = VString []"
| "Zero (TPtr t) = VNilOf (TPtr t)"
| "Zero (TSlice t) = VNilOf (TSlice t)"
| "Zero (TMap k v) = VNilOf (TMap k v)"
| "Zero (TFunc ins outs) = VNilOf (TFunc ins outs)"
| "Zero (TInterface ms) = VNil"
| "Zero (TStruct fs) = VStruct (TStruct fs) (zeroFields fs)"
| "Zero (TNamed p n vms pms u) = retype (TNamed p n vms pms u) (Zero u)"
| "zeroFields [] = []"
| "zeroFields (f # fs) = (fst f, Zero (snd f)) # zeroFields fs"

text \<open>
  Package \<^verbatim>\<open>encoding/json\<close> is not part of the repository: the router takes it as a
  parameter. \<open>Marshal v\<close> is \<^verbatim>\<open>json.Marshal(v)\<close>, an error message or the encoding;
  \<open>Unmarshal data t v\<close> is \<^verbatim>\<open>json.Unmarshal(data, p)\<close> for a pointer \<open>p\<close> of type
  \<open>*t\<close> to a variable holding \<open>v\<close>: an error message, or the value the variable holds
  afterwards.
\<close>

record 'j json_codec =
  Marshal :: "goval \<Rightarrow> string + 'j"
  Unmarshal :: "'j \<Rightarrow> gotype \<Rightarrow> goval \<Rightarrow> string + goval"

text \<open>
  Lines 144-151: the loop over \<^verbatim>\<open>cmd.metadata.Parameters\<close> with its index \<open>i\<close>;
  \<^verbatim>\<open>argsMap[k] = v\<close> replaces the value of a key that is already there.
\<close>

fun zipParams ::
  "nat \<Rightarrow> ParameterMetadata list \<Rightarrow> goval list \<Rightarrow> (string \<times> goval) list \<Rightarrow> (string \<times> goval) list" where
  "zipParams i [] args argsMap = argsMap"
| "zipParams i (param # ps) args argsMap =
     zipParams (Suc i) ps args
       (if i < length args then AList.update (ParameterMetadata.Name param) (args ! i) argsMap
        else if Default param \<noteq> VNil
          then AList.update (ParameterMetadata.Name param) (Default param) argsMap
        else argsMap)"

definition mapStringAny :: gotype where
  "mapStringAny = TMap TString (TInterface [])"

text \<open>
  Lines 137-152, for a non-empty \<open>args\<close>: the type assertion
  \<^verbatim>\<open>args[0].(map[string]interface{})\<close> succeeds on a value whose dynamic type is exactly
  that map type (also on its nil map).
\<close>

definition buildArgsMap :: "ParameterMetadata list \<Rightarrow> goval list \<Rightarrow> goval" where
  "buildArgsMap params args =
     (if TypeOf (hd args) = Some mapStringAny then hd args
      else VMap mapStringAny (zipParams 0 params args []))"

text \<open>
  Lines 154-161: \<^verbatim>\<open>json.Marshal(argsMap)\<close>, then \<^verbatim>\<open>json.Unmarshal\<close> into the new
  zero value of the argument type: the error returned, or the value that
  \<^verbatim>\<open>argPtr\<close> points to afterwards.
\<close>

definition coerceArgs :: "'j json_codec \<Rightarrow> gotype \<Rightarrow> goval \<Rightarrow> goval + goval" where
  "coerceArgs cd t argsMap =
     (case Marshal cd argsMap of
        Inl e \<Rightarrow> Inl (VErr (MarshalFailed e))
      | Inr jsonBytes \<Rightarrow>
          (case Unmarshal cd jsonBytes t (Zero t) of
             Inl e \<Rightarrow> Inl (VErr (UnmarshalFailed (Name_of t) e))
           | Inr v \<Rightarrow> Inr v))"

text \<open>
  Lines 133-166: the call arguments after the context; an error of the binder is
  \<open>Inl\<close>. \<^verbatim>\<open>handlerType.NumIn()\<close> panics on a type that is not a function type.
\<close>

definition bindArgs ::
  "'j json_codec \<Rightarrow> gotype \<Rightarrow> 'c registeredCommand \<Rightarrow> goval list
     \<Rightarrow> (goval + 'c callarg list) outcome" where
  "bindArgs cd handlerType cmd args =
     (case argType cmd of
        None \<Rightarrow> Return (Inr [])
      | Some t \<Rightarrow>
          (case ins_of handlerType of
             None \<Rightarrow> Panic ''reflect: NumIn of non-func type''
           | Some ins \<Rightarrow>
               if length ins \<noteq> 2 then Return (Inr [])
               else if args \<noteq> [] then
                 (case coerceArgs cd t (buildArgsMap (Parameters (metadata cmd)) args) of
                    Inl err \<Rightarrow> Return (Inl err)
                  | Inr v \<Rightarrow> Return (Inr [ValArg (VPtr t v)]))
               else Return (Inr [ValArg (VPtr t (Zero t))])))"

text \<open>
  \<^verbatim>\<open>handlerVal.Call(callArgs)\<close>: panics on a nil function, on a wrong number of
  arguments and on an argument that is not assignable to its parameter; otherwise the
  body runs. The first component is the list of calls of a handler body that were made.
\<close>

definition argAssignable :: "'c callarg \<Rightarrow> gotype \<Rightarrow> bool" where
  "argAssignable a targ = (case callargType a of None \<Rightarrow> False | Some xt \<Rightarrow> AssignableTo xt targ)"

definition Call ::
  "gotype \<Rightarrow> ('c callarg list \<Rightarrow> goval list outcome) option \<Rightarrow> 'c callarg list
     \<Rightarrow> 'c callarg list list \<times> goval list outcome" where
  "Call handlerType body callArgs =
     (case ins_of handlerType of
        None \<Rightarrow> ([], Panic ''reflect: call of reflect.Value.Call on non-func Value'')
      | Some ins \<Rightarrow>
          (case body of
             None \<Rightarrow> ([], Panic ''reflect: call of nil function'')
           | Some f \<Rightarrow>
               if length callArgs \<noteq> length ins
                 then ([], Panic ''reflect: Call with wrong number of input arguments'')
               else if \<not> list_all2 argAssignable callArgs ins
                 then ([], Panic ''reflect: Call using argument of a type not assignable to the parameter'')
               else ([callArgs], f callArgs)))"

text \<open>\<^verbatim>\<open>results[1].Interface().(error)\<close>: the dynamic type implements \<^verbatim>\<open>error\<close>.\<close>

definition isError :: "goval \<Rightarrow> bool" where
  "isError v = (case TypeOf v of None \<Rightarrow> False | Some t \<Rightarrow> Implements t errorInterface)"

text \<open>
  Lines 171-184: the two return values from the outputs of the call. The kind of
  \<^verbatim>\<open>results[i]\<close> is the kind of the handler's i-th output type.
\<close>

definition extractResults :: "gotype \<Rightarrow> goval list \<Rightarrow> (goval \<times> goval) outcome" where
  "extractResults handlerType results =
     (case (if length results \<ge> 1
              then IsNil (Kind_of (Out handlerType 0)) (results ! 0) else Return True) of
        Panic msg \<Rightarrow> Panic msg
      | Return nil0 \<Rightarrow>
          (let result = (if nil0 then VNil else results ! 0) in
           case (if length results \<ge> 2
                   then IsNil (Kind_of (Out handlerType 1)) (results ! 1) else Return True) of
             Panic msg \<Rightarrow> Panic msg
           | Return nil1 \<Rightarrow>
               Return (result,
                 if \<not> nil1 \<and> isError (results ! 1) then results ! 1 else VNil)))"

definition invokeHandler ::
  "'j json_codec \<Rightarrow> 'c \<Rightarrow> 'c registeredCommand \<Rightarrow> goval list
     \<Rightarrow> 'c callarg list list \<times> (goval \<times> goval) outcome" where
  "invokeHandler cd ctx cmd args =
     (case handler cmd of
        NilHandler \<Rightarrow> ([], Panic ''reflect: call of reflect.Value.Type on zero Value'')
      | Handler handlerType body \<Rightarrow>
          (case bindArgs cd handlerType cmd args of
             Panic msg \<Rightarrow> ([], Panic msg)
           | Return (Inl err) \<Rightarrow> ([], Return (VNil, err))
           | Return (Inr extra) \<Rightarrow>
               (case Call handlerType body (CtxArg ctx # extra) of
                  (calls, Panic msg) \<Rightarrow> (calls, Panic msg)
                | (calls, Return results) \<Rightarrow> (calls, extractResults handlerType results))))"

text \<open>\<^verbatim>\<open>Route\<close>: the calls of handler bodies made, and the pair (result, error) or a panic.\<close>

definition Route ::
  "'j json_codec \<Rightarrow> 'c CommandRouter \<Rightarrow> 'c \<Rightarrow> string \<Rightarrow> goval list
     \<Rightarrow> 'c callarg list list \<times> (goval \<times> goval) outcome" where
  "Route cd r ctx command args =
     (case map_of (commands r) command of
        None \<Rightarrow> ([], Return (VNil, VErr (UnknownCommand command)))
      | Some cmd \<Rightarrow> invokeHandler cd ctx cmd args)"

section \<open>The specification's vocabulary\<close>

text \<open>
  The four conditions of a valid handler, in the words of the specification (4.2): a
  function with one or two inputs, whose first input is a pointer to a type named
  Context, with exactly two outputs, the second of which implements \<^verbatim>\<open>error\<close>.
\<close>

definition ctxOk :: "gotype \<Rightarrow> bool" where
  "ctxOk c = (case underlying c of TPtr e \<Rightarrow> Name_of e = ''Context'' | _ \<Rightarrow> False)"

definition validSignature :: "gotype \<Rightarrow> bool" where
  "validSignature t =
     (case underlying t of
        TFunc ins outs \<Rightarrow>
          (length ins = 1 \<or> length ins = 2)
          \<and> ctxOk (ins ! 0)
          \<and> length outs = 2
          \<and> Implements (outs ! 1) errorInterface
      | _ \<Rightarrow> False)"

text \<open>The errors of the specification's class InvalidSignature.\<close>

fun isInvalidSignature :: "goval \<Rightarrow> bool" where
  "isInvalidSignature (VErr (NotAFunction k)) = True"
| "isInvalidSignature (VErr (BadInputCount n)) = True"
| "isInvalidSignature (VErr (BadOutputCount n)) = True"
| "isInvalidSignature (VErr (FirstArgNotContext t)) = True"
| "isInvalidSignature (VErr (SecondReturnNotError t)) = True"
| "isInvalidSignature v = False"

text \<open>The metadata that \<^verbatim>\<open>Register\<close> starts from: the name only.\<close>

definition defaultMetadata :: "string \<Rightarrow> CommandMetadata" where
  "defaultMetadata name = \<lparr>CommandMetadata.Name = name, CommandMetadata.Description = [],
                           Parameters = [], ReturnType = None, Examples = []\<rparr>"

text \<open>
  The operations of a router, and the router after one of them. Only \<^verbatim>\<open>Register\<close>
  writes the registry; a panic leaves it as it was (the assignment to the map is the last
  statement before the return).
\<close>

datatype 'c router_op =
    OpRegister string "'c CommandHandler" "CommandOption list"
  | OpRoute 'c string "goval list"
  | OpGetCommands
  | OpHasCommand string
  | OpCommandCount

fun stepRouter :: "'c CommandRouter \<Rightarrow> 'c router_op \<Rightarrow> 'c CommandRouter" where
  "stepRouter r (OpRegister name h opts) =
     (case Register r name h opts of Return (e, r') \<Rightarrow> r' | Panic msg \<Rightarrow> r)"
| "stepRouter r op = r"

section \<open>The structural coercion\<close>

text \<open>
  Modelled from the spec: the structural coercion of section 4.3, step 4. The router
  calls \<^verbatim>\<open>json.Marshal\<close> and \<^verbatim>\<open>json.Unmarshal\<close> of Go's \<^verbatim>\<open>encoding/json\<close>, which is not
  under src/. The open, self-describing value representation is a tree of \<open>json\<close>;
  the fragment has no floating-point numbers, so the numeric widening of the
  specification does not arise; a struct field is matched by its name.
\<close>

datatype json = JNull | JBool bool | JNum int | JString string | JArray "json list"
  | JObject "(string \<times> json) list"

text \<open>
  Modelled from the spec: the source value in the open representation. Type information
  is dropped; a nil pointer, slice or map and the nil interface are null.
\<close>

fun toJSON :: "goval \<Rightarrow> json" and toJSONs :: "goval list \<Rightarrow> json list"
  and toJSONfields :: "(string \<times> goval) list \<Rightarrow> (string \<times> json) list" where
  "toJSON VNil = JNull"
| "toJSON (VBool b) = JBool b"
| "toJSON (VInt i) = JNum i"
| "toJSON (VString s) = JString s"
| "toJSON (VSlice t vs) = JArray (toJSONs vs)"
| "toJSON (VMap t kvs) = JObject (toJSONfields kvs)"
| "toJSON (VStruct t fs) = JObject (toJSONfields fs)"
| "toJSON (VPtr t v) = toJSON v"
| "toJSON (VNilOf t) = JNull"
| "toJSON (VNamed t v) = toJSON v"
| "toJSON (VErr e) = JObject []"
| "toJSONs [] = []"
| "toJSONs (v # vs) = toJSON v # toJSONs vs"
| "toJSONfields [] = []"
| "toJSONfields (kv # kvs) = (fst kv, toJSON (snd kv)) # toJSONfields kvs"

text \<open>
  Modelled from the spec: the values that cannot be marshalled (ArgumentMarshalError):
  those that hold a function.
\<close>

fun unsupported :: "goval \<Rightarrow> bool" and unsupporteds :: "goval list \<Rightarrow> bool"
  and unsupportedFields :: "(string \<times> goval) list \<Rightarrow> bool" where
  "unsupported (VNilOf t) = (Kind_of t = KFunc)"
| "unsupported (VSlice t vs) = unsupporteds vs"
| "unsupported (VMap t kvs) = unsupportedFields kvs"
| "unsupported (VStruct t fs) = unsupportedFields fs"
| "unsupported (VPtr t v) = unsupported v"
| "unsupported (VNamed t v) = unsupported v"
| "unsupported v = False"
| "unsupporteds [] = False"
| "unsupporteds (v # vs) = (unsupported v \<or> unsupporteds vs)"
| "unsupportedFields [] = False"
| "unsupportedFields (kv # kvs) = (unsupported (snd kv) \<or> unsupportedFields kvs)"

text \<open>
  Modelled from the spec: the open value of a tree, for a target of type
  \<^verbatim>\<open>interface{}\<close>.
\<close>

fun generic :: "json \<Rightarrow> goval" and generics :: "json list \<Rightarrow> goval list"
  and genericFields :: "(string \<times> json) list \<Rightarrow> (string \<times> goval) list" where
  "generic JNull = VNil"
| "generic (JBool b) = VBool b"
| "generic (JNum i) = VInt i"
| "generic (JString s) = VString s"
| "generic (JArray js) = VSlice (TSlice (TInterface [])) (generics js)"
| "generic (JObject kvs) = VMap (TMap TString (TInterface [])) (genericFields kvs)"
| "generics [] = []"
| "generics (j # js) = generic j # generics js"
| "genericFields [] = []"
| "genericFields (kv # kvs) = (fst kv, generic (snd kv)) # genericFields kvs"

text \<open>
  Modelled from the spec: the conversion of a tree into a target type. Null gives the
  zero value; a scalar must have the type of the target; the fields of a struct are
  matched by name, a field that the source does not have keeps its zero value, a key of
  the source that names no field is dropped; a failure names the field and the type.
\<close>

definition cannot :: "gotype \<Rightarrow> string + 'a" where
  "cannot t = Inl (''cannot unmarshal into Go value of type '' @ Name_of t)"

fun decode :: "gotype \<Rightarrow> json \<Rightarrow> string + goval"
  and decodeList :: "gotype \<Rightarrow> json list \<Rightarrow> string + goval list"
  and decodeVals :: "gotype \<Rightarrow> (string \<times> json) list \<Rightarrow> string + (string \<times> goval) list"
  and decodeFields :: "(string \<times> gotype) list \<Rightarrow> (string \<times> json) list \<Rightarrow> string + (string \<times> goval) list" where
  "decode TBool j = (case j of JNull \<Rightarrow> Inr (Zero TBool) | JBool b \<Rightarrow> Inr (VBool b) | _ \<Rightarrow> cannot TBool)"
| "decode TInt j = (case j of JNull \<Rightarrow> Inr (Zero TInt) | JNum i \<Rightarrow> Inr (VInt i) | _ \<Rightarrow> cannot TInt)"
| "decode TString j =
     (case j of JNull \<Rightarrow> Inr (Zero TString) | JString s \<Rightarrow> Inr (VString s) | _ \<Rightarrow> cannot TString)"
| "decode (TInterface ms) j =
     (if j = JNull then Inr VNil
      else if ms = [] then Inr (generic j) else cannot (TInterface ms))"
| "decode (TPtr e) j =
     (if j = JNull then Inr (Zero (TPtr e))
      else case decode e j of Inl err \<Rightarrow> Inl err | Inr v \<Rightarrow> Inr (VPtr e v))"
| "decode (TSlice e) j =
     (case j of
        JNull \<Rightarrow> Inr (Zero (TSlice e))
      | JArray js \<Rightarrow>
          (case decodeList e js of Inl err \<Rightarrow> Inl err | Inr vs \<Rightarrow> Inr (VSlice (TSlice e) vs))
      | _ \<Rightarrow> cannot (TSlice e))"
| "decode (TMap k e) j =
     (case j of
        JNull \<Rightarrow> Inr (Zero (TMap k e))
      | JObject kvs \<Rightarrow>
          (if Kind_of k \<noteq> KString then cannot (TMap k e)
           else case decodeVals e kvs of
                  Inl err \<Rightarrow> Inl err | Inr vs \<Rightarrow> Inr (VMap (TMap k e) vs))
      | _ \<Rightarrow> cannot (TMap k e))"
| "decode (TStruct fs) j =
     (case j of
        JNull \<Rightarrow> Inr (Zero (TStruct fs))
      | JObject kvs \<Rightarrow>
          (case decodeFields fs kvs of
             Inl err \<Rightarrow> Inl err | Inr vs \<Rightarrow> Inr (VStruct (TStruct fs) vs))
      | _ \<Rightarrow> cannot (TStruct fs))"
| "decode (TNamed p n vms pms u) j =
     (case decode u j of
        Inl err \<Rightarrow> Inl err
      | Inr v \<Rightarrow> Inr (if Kind_of u = KInterface then v else retype (TNamed p n vms pms u) v))"
| "decode (TFunc ins outs) j =
     (if j = JNull then Inr (Zero (TFunc ins outs)) else cannot (TFunc ins outs))"
| "decodeList e [] = Inr []"
| "decodeList e (j # js) =
     (case decode e j of
        Inl err \<Rightarrow> Inl err
      | Inr v \<Rightarrow> (case decodeList e js of Inl err \<Rightarrow> Inl err | Inr vs \<Rightarrow> Inr (v # vs)))"
| "decodeVals e [] = Inr []"
| "decodeVals e (kv # kvs) =
     (case decode e (snd kv) of
        Inl err \<Rightarrow> Inl err
      | Inr v \<Rightarrow>
          (case decodeVals e kvs of Inl err \<Rightarrow> Inl err | Inr vs \<Rightarrow> Inr ((fst kv, v) # vs)))"
| "decodeFields [] kvs = Inr []"
| "decodeFields (f # fs) kvs =
     (case (case map_of kvs (fst f) of
              None \<Rightarrow> Inr (Zero (snd f)) | Some j \<Rightarrow> decode (snd f) j) of
        Inl err \<Rightarrow> Inl (fst f @ '': '' @ err)
      | Inr v \<Rightarrow>
          (case decodeFields fs kvs of Inl err \<Rightarrow> Inl err | Inr vs \<Rightarrow> Inr ((fst f, v) # vs)))"

text \<open>Modelled from the spec: the two functions as the codec that the router is given.\<close>

definition specCodec :: "json json_codec" where
  "specCodec = \<lparr>Marshal = (\<lambda>v. if unsupported v then Inl ''json: unsupported type''
                                 else Inr (toJSON v)),
                 Unmarshal = (\<lambda>data t v. decode t data)\<rparr>"

section \<open>The specification's vocabulary for the binder and the coercion\<close>

text \<open>
  The positional binding in the words of the specification (4.3, step 3): at index \<open>i\<close>
  the raw value if there is one, else the default if it is set, else nothing; the source
  object is the keyed object of these bindings, made in declaration order.
\<close>

definition positionalBinding ::
  "goval list \<Rightarrow> nat \<times> ParameterMetadata \<Rightarrow> (string \<times> goval) option" where
  "positionalBinding args ip =
     (if fst ip < length args then Some (ParameterMetadata.Name (snd ip), args ! fst ip)
      else if Default (snd ip) \<noteq> VNil
        then Some (ParameterMetadata.Name (snd ip), Default (snd ip))
      else None)"

definition zipSpec :: "ParameterMetadata list \<Rightarrow> goval list \<Rightarrow> (string \<rightharpoonup> goval)" where
  "zipSpec params args =
     map_of (rev (List.map_filter (positionalBinding args) (List.enumerate 0 params)))"

text \<open>The kinds that have a nil value, and the nil value of a kind.\<close>

definition nillable :: "Kind \<Rightarrow> bool" where
  "nillable k \<longleftrightarrow> k = KInterface \<or> k = KPtr \<or> k = KSlice \<or> k = KMap \<or> k = KFunc"

definition isNilValue :: "Kind \<Rightarrow> goval \<Rightarrow> bool" where
  "isNilValue k v = (if k = KInterface then v = VNil else (case v of VNilOf t \<Rightarrow> True | _ \<Rightarrow> False))"




section \<open>Example handlers and commands\<close>

definition anyType :: gotype where
  "anyType = TInterface []"

definition otherContext :: gotype where
  "otherContext = TNamed ''example.com/other'' ''Context'' [] [] (TStruct [])"

definition helloType :: gotype where
  "helloType = TFunc [TPtr sdkContext] [anyType, errorInterface]"

definition hello :: "'c CommandHandler" where
  "hello = Handler helloType (Some (\<lambda>callArgs. Return [VString ''hello'', VNil]))"

definition goodbye :: "'c CommandHandler" where
  "goodbye = Handler helloType (Some (\<lambda>callArgs. Return [VString ''goodbye'', VNil]))"

definition helloRouter :: "'c CommandRouter" where
  "helloRouter = \<lparr>commands = [(''hello'',
      \<lparr>metadata = defaultMetadata ''hello'', handler = hello, argType = None\<rparr>)]\<rparr>"

definition foreignCtxType :: gotype where
  "foreignCtxType = TFunc [TPtr otherContext] [anyType, errorInterface]"

definition byValueCtxType :: gotype where
  "byValueCtxType = TFunc [sdkContext] [anyType, errorInterface]"

definition helloBody :: "unit callarg list \<Rightarrow> goval list outcome" where
  "helloBody callArgs = Return [VString ''hello'', VNil]"

text \<open>A codec whose two functions always fail, for the calls that never reach it.\<close>

definition failingCodec :: "unit json_codec" where
  "failingCodec = \<lparr>Marshal = (\<lambda>v. Inl ''unsupported''),
                    Unmarshal = (\<lambda>data t v. Inl ''unsupported'')\<rparr>"

text \<open>
  The command of the specification's examples (section 8): parameters \<open>a\<close> with default
  1 and \<open>b\<close> required, and a handler that returns the argument it was given.
\<close>

definition sumArgs :: gotype where
  "sumArgs = TNamed ''main'' ''SumArgs'' [] [] (TStruct [(''a'', TInt), (''b'', TInt)])"

definition sumType :: gotype where
  "sumType = TFunc [TPtr sdkContext, TPtr sumArgs] [anyType, errorInterface]"

definition echoBody :: "unit callarg list \<Rightarrow> goval list outcome" where
  "echoBody callArgs =
     Return [case callArgs of [c, ValArg v] \<Rightarrow> v | _ \<Rightarrow> VNil, VNil]"

definition sumParams :: "ParameterMetadata list" where
  "sumParams =
     [\<lparr>ParameterMetadata.Name = ''a'', Type = ''int'', ParameterMetadata.Description = [],
       Required = False, Default = VInt 1\<rparr>,
      \<lparr>ParameterMetadata.Name = ''b'', Type = ''int'', ParameterMetadata.Description = [],
       Required = True, Default = VNil\<rparr>]"

definition sumCmd :: "unit registeredCommand" where
  "sumCmd = \<lparr>metadata = (defaultMetadata ''sum'')\<lparr>Parameters := sumParams\<rparr>,
             handler = Handler sumType (Some echoBody), argType = Some sumArgs\<rparr>"

text \<open>A handler that returns a string, and a handler that takes its argument by value.\<close>

definition greetType :: gotype where
  "greetType = TFunc [TPtr sdkContext] [TString, errorInterface]"

definition greetBody :: "unit callarg list \<Rightarrow> goval list outcome" where
  "greetBody callArgs = Return [VString ''hello'', VNil]"

definition greetRouter :: "unit CommandRouter" where
  "greetRouter = \<lparr>commands = [(''greet'',
      \<lparr>metadata = defaultMetadata ''greet'', handler = Handler greetType (Some greetBody),
       argType = None\<rparr>)]\<rparr>"

definition byValueType :: gotype where
  "byValueType = TFunc [TPtr sdkContext, sumArgs] [anyType, errorInterface]"

definition byValueRouter :: "unit CommandRouter" where
  "byValueRouter = \<lparr>commands = [(''sum'',
      \<lparr>metadata = defaultMetadata ''sum'', handler = Handler byValueType (Some echoBody),
       argType = Some sumArgs\<rparr>)]\<rparr>"






section \<open>Properties of the types\<close>

lemma Kind_of_underlying [simp]: "Kind_of (underlying t) = Kind_of t"
  by (induction t) auto

lemma underlying_idem [simp]: "underlying (underlying t) = underlying t"
  by (induction t) auto

lemma Kind_Func_iff: "Kind_of t = KFunc \<longleftrightarrow> (\<exists>ins outs. underlying t = TFunc ins outs)"
  by (induction t) auto

lemma Kind_Ptr_iff: "Kind_of t = KPtr \<longleftrightarrow> (\<exists>e. underlying t = TPtr e)"
  by (induction t) auto

lemma ctx_check:
  "(Kind_of c \<noteq> KPtr \<or> map_option Name_of (Elem c) \<noteq> Some ''Context'') \<longleftrightarrow> \<not> ctxOk c"
  by (cases "underlying c") (auto simp: ctxOk_def Kind_Ptr_iff)

section \<open>Registration\<close>

lemma Register_duplicate:
  "map_of (commands r) name \<noteq> None \<Longrightarrow>
   Register r name h opts = Return (VErr (AlreadyRegistered name), r)"
  by (simp add: Register_def)

lemma Register_func:
  assumes "map_of (commands r) name = None" "underlying t = TFunc ins outs"
  shows "Register r name (Handler t body) opts =
     (if length ins \<noteq> 1 \<and> length ins \<noteq> 2 then Return (VErr (BadInputCount (length ins)), r)
      else if length outs \<noteq> 2 then Return (VErr (BadOutputCount (length outs)), r)
      else if \<not> ctxOk (ins ! 0) then Return (VErr (FirstArgNotContext (ins ! 0)), r)
      else if \<not> Implements (outs ! 1) errorInterface
        then Return (VErr (SecondReturnNotError (outs ! 1)), r)
      else case applyOpts opts (defaultMetadata name) of
             Panic msg \<Rightarrow> Panic msg
           | Return md \<Rightarrow>
               Return (VNil,
                 r\<lparr>commands := AList.update name
                     \<lparr>metadata = md, handler = Handler t body,
                      argType = detectArgType t\<rparr> (commands r)\<rparr>))"
proof -
  have k: "Kind_of t = KFunc"
    using assms(2) by (auto simp: Kind_Func_iff)
  have a: "(length ins < 1 \<or> length ins > 2) \<longleftrightarrow> (length ins \<noteq> 1 \<and> length ins \<noteq> 2)"
    by arith
  show ?thesis
    unfolding Register_def Let_def ctx_check defaultMetadata_def
    using assms k a by (simp add: NumIn_def NumOut_def In_def Out_def)
qed

lemma Register_nonfunc:
  assumes "map_of (commands r) name = None" "Kind_of t \<noteq> KFunc"
  shows "Register r name (Handler t body) opts = Return (VErr (NotAFunction (Kind_of t)), r)"
  using assms by (simp add: Register_def)

lemma validSignature_func:
  "underlying t = TFunc ins outs \<Longrightarrow>
   validSignature t \<longleftrightarrow>
     (length ins = 1 \<or> length ins = 2) \<and> ctxOk (ins ! 0) \<and> length outs = 2
     \<and> Implements (outs ! 1) errorInterface"
  by (simp add: validSignature_def)

lemma validSignature_nonfunc: "Kind_of t \<noteq> KFunc \<Longrightarrow> \<not> validSignature t"
  by (auto simp: validSignature_def Kind_Func_iff split: gotype.splits)

lemma validSignature_Func: "validSignature t \<Longrightarrow> \<exists>ins outs. underlying t = TFunc ins outs"
  by (auto simp: validSignature_def split: gotype.splits)

text \<open>
  For a handler that is not the nil interface, registration under a new name rejects
  exactly the invalid signatures, with an error of the class InvalidSignature and the
  registry unchanged, and goes on to the options on a valid one.
\<close>

lemma Register_invalid:
  assumes "map_of (commands r) name = None" "\<not> validSignature t"
  shows "\<exists>e. Register r name (Handler t body) opts = Return (e, r) \<and> isInvalidSignature e"
proof (cases "Kind_of t = KFunc")
  case False
  then show ?thesis
    using assms by (simp add: Register_nonfunc)
next
  case True
  then obtain ins outs where u: "underlying t = TFunc ins outs"
    by (auto simp: Kind_Func_iff)
  show ?thesis
    using assms(2) unfolding Register_func[OF assms(1) u] validSignature_func[OF u]
    by auto
qed

lemma Register_valid:
  assumes "map_of (commands r) name = None" "validSignature t"
  shows "Register r name (Handler t body) opts =
     (case applyOpts opts (defaultMetadata name) of
        Panic msg \<Rightarrow> Panic msg
      | Return md \<Rightarrow>
          Return (VNil,
            r\<lparr>commands := AList.update name
                \<lparr>metadata = md, handler = Handler t body,
                 argType = detectArgType t\<rparr> (commands r)\<rparr>))"
proof -
  from assms(2) obtain ins outs where u: "underlying t = TFunc ins outs"
    using validSignature_Func by blast
  show ?thesis
    using assms(2) unfolding Register_func[OF assms(1) u] validSignature_func[OF u]
    by auto
qed

lemma ctxOk_ptr_Context: "ctxOk (TPtr (TNamed pkg ''Context'' vms pms u))"
  by (simp add: ctxOk_def)

lemma not_ctxOk_iff:
  "\<not> ctxOk c \<longleftrightarrow>
     (Kind_of c \<noteq> KPtr \<or> (\<forall>e. underlying c = TPtr e \<longrightarrow> Name_of e \<noteq> ''Context''))"
  by (cases "underlying c") (auto simp: ctxOk_def Kind_Ptr_iff)

lemma not_ctxOk_sdkContext: "\<not> ctxOk sdkContext"
  by (simp add: ctxOk_def sdkContext_def)

lemma Implements_error_error: "Implements errorInterface errorInterface"
  by (simp add: Implements_def errorInterface_def)

lemma validSignature_helloType: "validSignature helloType"
  by (simp add: validSignature_def helloType_def ctxOk_def sdkContext_def
      Implements_error_error)

text \<open>
  C1. Register accepts a handler exactly when it is a function with one or two inputs,
  the first a pointer to Context, and two outputs, the second an error; every other
  handler is to be rejected with an InvalidSignature error. For every handler that is
  not the nil interface this is \<open>Register_invalid\<close> and \<open>Register_valid\<close> above. The
  nil interface is a handler that is not a function, and Register does not reject it
  with an error: \<^verbatim>\<open>reflect.ValueOf(nil).Type()\<close> panics before the check of the kind.
\<close>

theorem Register_nil_handler_panics:
  "Register (helloRouter :: unit CommandRouter) ''other'' NilHandler [] =
     Panic ''reflect: call of reflect.Value.Type on zero Value''"
  by (simp add: Register_def helloRouter_def)

theorem Register_nil_handler_panics_witness:
  "\<not> (\<exists>e r'. Register (helloRouter :: unit CommandRouter) ''other'' NilHandler [] =
        Return (e, r'))"
  using Register_nil_handler_panics by simp

lemma stepRouter_keeps:
  assumes c: "map_of (commands r) name = Some c"
  shows "map_of (commands (stepRouter r op)) name = Some c"
proof (cases op)
  case (OpRegister n h opts)
  show ?thesis
  proof (cases "map_of (commands r) n = None")
    case False
    then show ?thesis
      using OpRegister c by (simp add: Register_duplicate)
  next
    case True
    then have ne: "n \<noteq> name"
      using c by auto
    show ?thesis
    proof (cases h)
      case NilHandler
      then show ?thesis
        using OpRegister True c by (simp add: Register_def)
    next
      case (Handler t body)
      show ?thesis
      proof (cases "validSignature t")
        case False
        from Register_invalid[OF True False, of body opts] show ?thesis
          using OpRegister Handler c by auto
      next
        case v: True
        show ?thesis
          using OpRegister Handler c ne
          by (simp add: Register_valid[OF True v] update_conv' split: outcome.splits)
      qed
    qed
  qed
qed (simp_all add: c)

lemma run_keeps:
  "map_of (commands r) name = Some c \<Longrightarrow>
   map_of (commands (foldl stepRouter r ops)) name = Some c"
  by (induction ops arbitrary: r) (simp_all add: stepRouter_keeps)

text \<open>
  C5. The registry is append-only: registering a name that is already there fails with
  the duplicate error and returns the registry as it was, and after any sequence of
  operations of the router an entry still maps its name to the same registered command
  (handler and metadata).
\<close>

theorem registry_append_only:
  "(map_of (commands r) name = Some c \<longrightarrow>
      Register r name h opts = Return (VErr (AlreadyRegistered name), r))
   \<and> (map_of (commands r) name = Some c \<longrightarrow>
      map_of (commands (foldl stepRouter r ops)) name = Some c)"
  by (simp add: Register_duplicate run_keeps)

theorem registry_append_only_witness:
  "map_of (commands (helloRouter :: unit CommandRouter)) ''hello''
     = Some \<lparr>metadata = defaultMetadata ''hello'', handler = hello, argType = None\<rparr>
   \<and> Register (helloRouter :: unit CommandRouter) ''hello'' goodbye [] =
       Return (VErr (AlreadyRegistered ''hello''), helloRouter)
   \<and> map_of (commands (foldl stepRouter (helloRouter :: unit CommandRouter)
        [OpRegister ''hello'' goodbye [], OpRoute () ''hello'' [],
         OpRegister ''bye'' goodbye []])) ''hello''
     = Some \<lparr>metadata = defaultMetadata ''hello'', handler = hello, argType = None\<rparr>"
proof -
  have h: "map_of (commands (helloRouter :: unit CommandRouter)) ''hello''
     = Some \<lparr>metadata = defaultMetadata ''hello'', handler = hello, argType = None\<rparr>"
    by (simp add: helloRouter_def)
  show ?thesis
    using h registry_append_only[of "helloRouter :: unit CommandRouter" "''hello''"
       "\<lparr>metadata = defaultMetadata ''hello'', handler = hello, argType = None\<rparr>"
       goodbye "[]"
       "[OpRegister ''hello'' goodbye [], OpRoute () ''hello'' [],
         OpRegister ''bye'' goodbye []]"]
    by blast
qed

section \<open>Routing\<close>

text \<open>
  C9. Routing a name that is not in the registry returns the unknown-command error with
  a nil result, and no handler body is called.
\<close>

theorem Route_unknown_command:
  "map_of (commands r) command = None \<Longrightarrow>
   \<not> HasCommand r command
   \<and> Route cd r ctx command args = ([], Return (VNil, VErr (UnknownCommand command)))"
  by (simp add: Route_def HasCommand_def)

theorem Route_unknown_command_witness:
  "map_of (commands (helloRouter :: unit CommandRouter)) ''bye'' = None
   \<and> Route failingCodec (helloRouter :: unit CommandRouter) () ''bye'' [VInt 1]
       = ([], Return (VNil, VErr (UnknownCommand ''bye'')))"
proof -
  have h: "map_of (commands (helloRouter :: unit CommandRouter)) ''bye'' = None"
    by (simp add: helloRouter_def)
  show ?thesis
    using h Route_unknown_command[OF h, of failingCodec "()" "[VInt 1]"] by simp
qed

text \<open>
  C10. The context parameter is identified by the name of the pointed-to type only: a
  handler (otherwise valid, under a new name) whose first input is a pointer to a type
  named Context is accepted whatever package declares the type, and one whose first
  input is not a pointer, or points to a type of another name, is rejected with the
  first-argument error; the SDK's Context passed by value is among the latter.
\<close>

theorem Register_context_by_name:
  assumes "map_of (commands r) name = None"
    and "underlying t = TFunc ins outs"
    and "length ins = 1 \<or> length ins = 2"
    and "length outs = 2"
    and "Implements (outs ! 1) errorInterface"
    and "applyOpts opts (defaultMetadata name) = Return md"
  shows "(ins ! 0 = TPtr (TNamed pkg ''Context'' vms pms u) \<longrightarrow>
            Register r name (Handler t body) opts =
              Return (VNil, r\<lparr>commands := AList.update name
                 \<lparr>metadata = md, handler = Handler t body, argType = detectArgType t\<rparr>
                 (commands r)\<rparr>))
         \<and> (Kind_of (ins ! 0) \<noteq> KPtr
              \<or> (\<forall>e. underlying (ins ! 0) = TPtr e \<longrightarrow> Name_of e \<noteq> ''Context'') \<longrightarrow>
            Register r name (Handler t body) opts =
              Return (VErr (FirstArgNotContext (ins ! 0)), r))
         \<and> (ins ! 0 = sdkContext \<longrightarrow>
            Register r name (Handler t body) opts =
              Return (VErr (FirstArgNotContext sdkContext), r))"
proof (intro conjI impI)
  assume "ins ! 0 = TPtr (TNamed pkg ''Context'' vms pms u)"
  then have "ctxOk (ins ! 0)"
    by (simp add: ctxOk_ptr_Context)
  then show "Register r name (Handler t body) opts =
              Return (VNil, r\<lparr>commands := AList.update name
                 \<lparr>metadata = md, handler = Handler t body, argType = detectArgType t\<rparr>
                 (commands r)\<rparr>)"
    using assms(3-6) unfolding Register_func[OF assms(1,2)] by auto
next
  assume "Kind_of (ins ! 0) \<noteq> KPtr
              \<or> (\<forall>e. underlying (ins ! 0) = TPtr e \<longrightarrow> Name_of e \<noteq> ''Context'')"
  then have "\<not> ctxOk (ins ! 0)"
    by (simp add: not_ctxOk_iff)
  then show "Register r name (Handler t body) opts =
              Return (VErr (FirstArgNotContext (ins ! 0)), r)"
    using assms(3-6) unfolding Register_func[OF assms(1,2)] by auto
next
  assume s: "ins ! 0 = sdkContext"
  then have "\<not> ctxOk (ins ! 0)"
    by (simp add: not_ctxOk_sdkContext)
  then show "Register r name (Handler t body) opts =
              Return (VErr (FirstArgNotContext sdkContext), r)"
    using assms(3-6) s unfolding Register_func[OF assms(1,2)] by auto
qed

theorem Register_context_by_name_witness:
  "Register (helloRouter :: unit CommandRouter) ''bye'' (Handler foreignCtxType (Some helloBody)) [] =
     Return (VNil, helloRouter\<lparr>commands := AList.update ''bye''
        \<lparr>metadata = defaultMetadata ''bye'', handler = Handler foreignCtxType (Some helloBody),
         argType = detectArgType foreignCtxType\<rparr> (commands helloRouter)\<rparr>)
   \<and> Register (helloRouter :: unit CommandRouter) ''bye'' (Handler byValueCtxType (Some helloBody)) [] =
     Return (VErr (FirstArgNotContext sdkContext), helloRouter)"
proof -
  have n: "map_of (commands (helloRouter :: unit CommandRouter)) ''bye'' = None"
    by (simp add: helloRouter_def)
  have u1: "underlying foreignCtxType = TFunc [TPtr otherContext] [anyType, errorInterface]"
    by (simp add: foreignCtxType_def)
  have u2: "underlying byValueCtxType = TFunc [sdkContext] [anyType, errorInterface]"
    by (simp add: byValueCtxType_def)
  have l1: "length [TPtr otherContext] = 1 \<or> length [TPtr otherContext] = 2"
    by simp
  have l1': "length [sdkContext] = 1 \<or> length [sdkContext] = 2"
    by simp
  have l2: "length [anyType, errorInterface] = 2"
    by simp
  have e: "Implements ([anyType, errorInterface] ! 1) errorInterface"
    by (simp add: Implements_error_error)
  have o: "applyOpts [] (defaultMetadata ''bye'') = Return (defaultMetadata ''bye'')"
    by simp
  have a: "[TPtr otherContext] ! 0 =
      TPtr (TNamed ''example.com/other'' ''Context'' [] [] (TStruct []))"
    by (simp add: otherContext_def)
  have b: "[sdkContext] ! 0 = sdkContext"
    by simp
  from Register_context_by_name[OF n u1 l1 l2 e o,
      of "''example.com/other''" "[]" "[]" "TStruct []" "Some helloBody"] a
    Register_context_by_name[OF n u2 l1' l2 e o,
      of "''example.com/other''" "[]" "[]" "TStruct []" "Some helloBody"] b
  show ?thesis
    by simp
qed

section \<open>The argument binder\<close>

lemma map_of_snoc: "map_of (xs @ [(k, v)]) = [k \<mapsto> v] ++ map_of xs"
  by (simp add: map_of_append)

lemma map_add_single: "m ++ ([k \<mapsto> v] ++ n) = m(k \<mapsto> v) ++ n"
  by (rule ext) (simp add: map_add_def split: option.splits)

lemma zipParams_map_of:
  "map_of (zipParams i ps args acc) =
     map_of acc ++ map_of (rev (List.map_filter (positionalBinding args) (List.enumerate i ps)))"
proof (induction ps arbitrary: i acc)
  case Nil
  then show ?case by simp
next
  case (Cons p ps)
  show ?case
  proof (cases "positionalBinding args (i, p)")
    case None
    then have "zipParams i (p # ps) args acc = zipParams (Suc i) ps args acc"
      by (simp add: positionalBinding_def split: if_splits)
    then show ?thesis using None by (simp add: Cons.IH)
  next
    case (Some b)
    obtain k v where b: "b = (k, v)" by (cases b)
    have "zipParams i (p # ps) args acc = zipParams (Suc i) ps args (AList.update k v acc)"
      using Some b by (auto simp: positionalBinding_def split: if_splits)
    then have "map_of (zipParams i (p # ps) args acc) =
        (map_of acc)(k \<mapsto> v) ++
          map_of (rev (List.map_filter (positionalBinding args) (List.enumerate (Suc i) ps)))"
      by (simp only: Cons.IH update_conv')
    also have "\<dots> = map_of acc ++ ([k \<mapsto> v] ++
          map_of (rev (List.map_filter (positionalBinding args) (List.enumerate (Suc i) ps))))"
      by (simp only: map_add_single)
    also have "\<dots> = map_of acc ++
          map_of (rev (List.map_filter (positionalBinding args) (List.enumerate i (p # ps))))"
      using Some b by (simp add: map_of_snoc del: map_of_append)
    finally show ?thesis .
  qed
qed

lemma zipParams_distinct:
  "distinct (map fst acc) \<Longrightarrow> distinct (map fst (zipParams i ps args acc))"
  by (induction ps arbitrary: i acc) (simp_all add: distinct_update)

lemma zipParams_refines: "map_of (zipParams 0 params args []) = zipSpec params args"
  by (simp add: zipParams_map_of zipSpec_def)

lemma set_bindings:
  "set (List.map_filter f xs) = {b. \<exists>x \<in> set xs. f x = Some b}"
  by (induction xs) (auto split: option.splits)

lemma bindings_keys:
  "map fst (List.map_filter (positionalBinding args) (List.enumerate i ps)) =
   map (ParameterMetadata.Name \<circ> snd)
     (filter (\<lambda>ip. positionalBinding args ip \<noteq> None) (List.enumerate i ps))"
  by (induction ps arbitrary: i) (auto simp: positionalBinding_def)

lemma bindings_distinct:
  assumes "distinct (map ParameterMetadata.Name ps)"
  shows "distinct (map fst (List.map_filter (positionalBinding args) (List.enumerate i ps)))"
proof -
  have "map (ParameterMetadata.Name \<circ> snd) (List.enumerate i ps) = map ParameterMetadata.Name ps"
    by (simp flip: map_map)
  then have "distinct (map (ParameterMetadata.Name \<circ> snd) (List.enumerate i ps))"
    using assms by simp
  then show ?thesis
    unfolding bindings_keys by (rule distinct_map_filter)
qed

lemma zipSpec_index:
  assumes d: "distinct (map ParameterMetadata.Name params)" and i: "i < length params"
  shows "zipSpec params args (ParameterMetadata.Name (params ! i)) =
     (if i < length args then Some (args ! i)
      else if Default (params ! i) \<noteq> VNil then Some (Default (params ! i))
      else None)"
proof -
  let ?l = "List.map_filter (positionalBinding args) (List.enumerate 0 params)"
  have dl: "distinct (map fst ?l)" using d by (rule bindings_distinct)
  have "map_of (rev ?l) = map_of ?l"
    using dl by (intro map_of_inject_set[THEN iffD2]) (simp_all add: rev_map[symmetric])
  then have m: "zipSpec params args = map_of ?l"
    by (simp add: zipSpec_def)
  have mem: "(i, params ! i) \<in> set (List.enumerate 0 params)"
    using i by (auto simp: in_set_enumerate_eq)
  show ?thesis
  proof (cases "positionalBinding args (i, params ! i)")
    case (Some b)
    then have "b \<in> set ?l" using mem by (auto simp: set_bindings)
    then have "map_of ?l (fst b) = Some (snd b)" using dl by simp
    then show ?thesis using Some m by (auto simp: positionalBinding_def split: if_splits)
  next
    case None
    have "ParameterMetadata.Name (params ! i) \<notin> fst ` set ?l"
    proof
      assume "ParameterMetadata.Name (params ! i) \<in> fst ` set ?l"
      then obtain j where j: "j < length params" "positionalBinding args (j, params ! j) \<noteq> None"
         "ParameterMetadata.Name (params ! j) = ParameterMetadata.Name (params ! i)"
        by (auto simp: set_bindings in_set_enumerate_eq positionalBinding_def split: if_splits)
      have "map ParameterMetadata.Name params ! j = map ParameterMetadata.Name params ! i"
        using j i by simp
      then have "j = i" using d i j(1) unfolding distinct_conv_nth by (metis length_map)
      then show False using j None by simp
    qed
    then have "map_of ?l (ParameterMetadata.Name (params ! i)) = None"
      by (simp add: map_of_eq_None_iff)
    then show ?thesis using None m by (auto simp: positionalBinding_def split: if_splits)
  qed
qed

lemma map_filter_eqI:
  "(\<And>x. x \<in> set xs \<Longrightarrow> f x = g x) \<Longrightarrow> List.map_filter f xs = List.map_filter g xs"
  by (induction xs) (simp_all split: option.splits)

lemma zipSpec_extra:
  "zipSpec params (take (length params) args) = zipSpec params args"
proof -
  have "\<And>ip. ip \<in> set (List.enumerate 0 params) \<Longrightarrow>
     positionalBinding (take (length params) args) ip = positionalBinding args ip"
    by (auto simp: positionalBinding_def in_set_enumerate_eq)
  then have "List.map_filter (positionalBinding (take (length params) args)) (List.enumerate 0 params)
     = List.map_filter (positionalBinding args) (List.enumerate 0 params)"
    by (rule map_filter_eqI)
  then show ?thesis by (simp add: zipSpec_def)
qed

lemma zipSpec_dom: "dom (zipSpec params args) \<subseteq> ParameterMetadata.Name ` set params"
proof -
  have "fst ` set (List.map_filter (positionalBinding args) (List.enumerate 0 params))
      \<subseteq> ParameterMetadata.Name ` set params"
    by (auto simp: set_bindings positionalBinding_def in_set_enumerate_eq split: if_splits)
  then show ?thesis
    by (simp add: zipSpec_def dom_map_of_conv_image_fst)
qed

lemma Register_sum:
  "Register (NewCommandRouter :: unit CommandRouter) ''sum'' (Handler sumType (Some echoBody))
     [WithParameters sumParams] = Return (VNil, \<lparr>commands = [(''sum'', sumCmd)]\<rparr>)"
  by (simp add: Register_def NewCommandRouter_def sumType_def NumIn_def NumOut_def In_def Out_def
      sdkContext_def errorInterface_def Implements_def WithParameters_def sumCmd_def
      defaultMetadata_def detectArgType_def)

lemma bindArgs_typed:
  assumes "argType cmd = Some t" "ins_of handlerType = Some ins" "length ins = 2" "args \<noteq> []"
  shows "bindArgs cd handlerType cmd args =
     (case coerceArgs cd t (buildArgsMap (Parameters (metadata cmd)) args) of
        Inl err \<Rightarrow> Return (Inl err) | Inr v \<Rightarrow> Return (Inr [ValArg (VPtr t v)]))"
  using assms by (simp add: bindArgs_def)

text \<open>
  C2. For a typed-argument command called with a non-empty argument list whose first
  value is not a keyed object, the source object that the binder hands to the coercion
  is the keyed object of the positional bindings made in declaration order: at index
  \<open>i\<close> the raw value if there is one (never the default), else the default if it is set,
  else nothing. Its keys are parameter names, raw values beyond the declared parameters
  change nothing and raise no error, and where the parameter names are distinct (the
  data model of the specification) each parameter's name is bound exactly as its own
  index says.
\<close>

theorem positional_zip:
  assumes "argType cmd = Some t" and "ins_of handlerType = Some ins" and "length ins = 2"
    and "args \<noteq> []" and "TypeOf (hd args) \<noteq> Some mapStringAny"
  shows "bindArgs cd handlerType cmd args =
           (case coerceArgs cd t
                   (VMap mapStringAny (zipParams 0 (Parameters (metadata cmd)) args [])) of
              Inl err \<Rightarrow> Return (Inl err) | Inr v \<Rightarrow> Return (Inr [ValArg (VPtr t v)]))
         \<and> map_of (zipParams 0 (Parameters (metadata cmd)) args []) =
             zipSpec (Parameters (metadata cmd)) args
         \<and> distinct (map fst (zipParams 0 (Parameters (metadata cmd)) args []))
         \<and> dom (zipSpec (Parameters (metadata cmd)) args)
             \<subseteq> ParameterMetadata.Name ` set (Parameters (metadata cmd))
         \<and> zipSpec (Parameters (metadata cmd)) (take (length (Parameters (metadata cmd))) args) =
             zipSpec (Parameters (metadata cmd)) args
         \<and> (distinct (map ParameterMetadata.Name (Parameters (metadata cmd))) \<longrightarrow>
             (\<forall>i < length (Parameters (metadata cmd)).
                zipSpec (Parameters (metadata cmd)) args
                    (ParameterMetadata.Name (Parameters (metadata cmd) ! i)) =
                  (if i < length args then Some (args ! i)
                   else if Default (Parameters (metadata cmd) ! i) \<noteq> VNil
                     then Some (Default (Parameters (metadata cmd) ! i))
                   else None)))"
  using assms
  by (simp add: bindArgs_typed buildArgsMap_def zipParams_refines zipParams_distinct
      zipSpec_dom zipSpec_extra zipSpec_index)

lemma sumParams_simps:
  "Parameters (metadata sumCmd) = sumParams" "argType sumCmd = Some sumArgs"
  "ins_of sumType = Some [TPtr sdkContext, TPtr sumArgs]"
  by (simp_all add: sumCmd_def sumType_def)

theorem positional_zip_witness:
  "zipParams 0 sumParams [VInt 5] [] = [(''a'', VInt 5)]
   \<and> zipSpec sumParams [VInt 5] ''a'' = Some (VInt 5)
   \<and> zipSpec sumParams [VInt 5] ''b'' = None
   \<and> bindArgs specCodec sumType sumCmd [VInt 5] =
       Return (Inr [ValArg (VPtr sumArgs (VStruct sumArgs [(''a'', VInt 5), (''b'', VInt 0)]))])"
proof -
  have z: "zipParams 0 sumParams [VInt 5] [] = [(''a'', VInt 5)]"
    by (simp add: sumParams_def)
  have c: "coerceArgs specCodec sumArgs (VMap mapStringAny [(''a'', VInt 5)]) =
      Inr (VStruct sumArgs [(''a'', VInt 5), (''b'', VInt 0)])"
    by (simp add: coerceArgs_def specCodec_def sumArgs_def)
  have d: "distinct (map ParameterMetadata.Name sumParams)"
    by (simp add: sumParams_def)
  have n: "[VInt 5] \<noteq> []" "TypeOf (hd [VInt 5]) \<noteq> Some mapStringAny" "length [TPtr sdkContext, TPtr sumArgs] = 2"
    by (simp_all add: mapStringAny_def)
  have l: "(0::nat) < length sumParams" "1 < length sumParams"
     "ParameterMetadata.Name (sumParams ! 0) = ''a''" "ParameterMetadata.Name (sumParams ! 1) = ''b''"
     "Default (sumParams ! 1) = VNil"
    by (simp_all add: sumParams_def)
  note pz = positional_zip[OF sumParams_simps(2) sumParams_simps(3) n(3) n(1) n(2),
      of specCodec, unfolded sumParams_simps(1)]
  from pz have b: "bindArgs specCodec sumType sumCmd [VInt 5] =
           (case coerceArgs specCodec sumArgs
                   (VMap mapStringAny (zipParams 0 sumParams [VInt 5] [])) of
              Inl err \<Rightarrow> Return (Inl err) | Inr v \<Rightarrow> Return (Inr [ValArg (VPtr sumArgs v)]))"
    by (rule conjunct1)
  from pz d have ix: "\<forall>i < length sumParams.
                zipSpec sumParams [VInt 5] (ParameterMetadata.Name (sumParams ! i)) =
                  (if i < length [VInt 5] then Some ([VInt 5] ! i)
                   else if Default (sumParams ! i) \<noteq> VNil
                     then Some (Default (sumParams ! i))
                   else None)"
    by blast
  have a0: "zipSpec sumParams [VInt 5] ''a'' = Some (VInt 5)"
    using ix[rule_format, OF l(1)] l(3) by simp
  have a1: "zipSpec sumParams [VInt 5] ''b'' = None"
    using ix[rule_format, OF l(2)] l(4,5) by simp
  show ?thesis
    using z a0 a1 b c by simp
qed

text \<open>
  C3. For a typed-argument command called with an argument list whose first value is a
  keyed object (\<^verbatim>\<open>map[string]interface{}\<close>), that value itself is the source object of
  the coercion: the result of the binder, and of the whole invocation, does not depend
  on the declared parameters and their defaults, nor on the raw values after the first.
\<close>

theorem keyed_object_direct:
  assumes "handler cmd = Handler handlerType body" and "argType cmd = Some t"
    and "ins_of handlerType = Some ins" and "length ins = 2"
    and "TypeOf m = Some mapStringAny"
  shows "bindArgs cd handlerType cmd (m # rest) =
           (case coerceArgs cd t m of
              Inl err \<Rightarrow> Return (Inl err) | Inr v \<Rightarrow> Return (Inr [ValArg (VPtr t v)]))
         \<and> bindArgs cd handlerType (cmd\<lparr>metadata := md\<rparr>) (m # rest') =
             bindArgs cd handlerType cmd (m # rest)
         \<and> invokeHandler cd ctx (cmd\<lparr>metadata := md\<rparr>) (m # rest') =
             invokeHandler cd ctx cmd (m # rest)"
proof -
  have b: "\<And>c r. argType c = Some t \<Longrightarrow> bindArgs cd handlerType c (m # r) =
           (case coerceArgs cd t m of
              Inl err \<Rightarrow> Return (Inl err) | Inr v \<Rightarrow> Return (Inr [ValArg (VPtr t v)]))"
    using assms(3-5) by (simp add: bindArgs_def buildArgsMap_def)
  have e: "bindArgs cd handlerType (cmd\<lparr>metadata := md\<rparr>) (m # rest') =
             bindArgs cd handlerType cmd (m # rest)"
    using assms(2) by (simp add: b)
  show ?thesis
    using assms(1,2) e by (simp add: b invokeHandler_def)
qed

theorem keyed_object_direct_witness:
  "bindArgs specCodec sumType sumCmd [VMap mapStringAny [(''b'', VInt 7)], VInt 5] =
     Return (Inr [ValArg (VPtr sumArgs (VStruct sumArgs [(''a'', VInt 0), (''b'', VInt 7)]))])
   \<and> bindArgs specCodec sumType (sumCmd\<lparr>metadata := defaultMetadata ''sum''\<rparr>)
        [VMap mapStringAny [(''b'', VInt 7)]] =
      bindArgs specCodec sumType sumCmd [VMap mapStringAny [(''b'', VInt 7)], VInt 5]"
proof -
  have h: "handler sumCmd = Handler sumType (Some echoBody)"
    by (simp add: sumCmd_def)
  have n: "length [TPtr sdkContext, TPtr sumArgs] = 2"
    by simp
  have m: "TypeOf (VMap mapStringAny [(''b'', VInt 7)]) = Some mapStringAny"
    by simp
  have c: "coerceArgs specCodec sumArgs (VMap mapStringAny [(''b'', VInt 7)]) =
      Inr (VStruct sumArgs [(''a'', VInt 0), (''b'', VInt 7)])"
    by (simp add: coerceArgs_def specCodec_def sumArgs_def)
  from keyed_object_direct[OF h sumParams_simps(2) sumParams_simps(3) n m,
      of specCodec "[VInt 5]" "defaultMetadata ''sum''" "[]" "()"] c
  show ?thesis
    by simp
qed

section \<open>Invocation and the normalization of the outputs\<close>

lemma IsNil_nillable: "nillable k \<Longrightarrow> IsNil k v = Return (isNilValue k v)"
  by (auto simp: nillable_def IsNil_def isNilValue_def)

lemma IsNil_not_nillable:
  "\<not> nillable k \<Longrightarrow> IsNil k v = Panic ''reflect: call of reflect.Value.IsNil on non-nillable Value''"
  by (auto simp: nillable_def IsNil_def)

lemma extractResults_nillable:
  assumes "nillable (Kind_of (Out ht 0))" "nillable (Kind_of (Out ht 1))"
  shows "extractResults ht [r0, r1] =
     Return (if isNilValue (Kind_of (Out ht 0)) r0 then VNil else r0,
             if \<not> isNilValue (Kind_of (Out ht 1)) r1 \<and> isError r1 then r1 else VNil)"
  using assms by (simp add: extractResults_def IsNil_nillable)

lemma extractResults_not_nillable:
  assumes "\<not> nillable (Kind_of (Out ht 0)) \<or> \<not> nillable (Kind_of (Out ht 1))"
  shows "extractResults ht [r0, r1] =
     Panic ''reflect: call of reflect.Value.IsNil on non-nillable Value''"
  using assms
  by (cases "nillable (Kind_of (Out ht 0))")
     (auto simp: extractResults_def IsNil_nillable IsNil_not_nillable)

lemma Route_invokes:
  assumes "map_of (commands r) name = Some cmd"
    and "handler cmd = Handler ht (Some f)"
    and "ins_of ht = Some ins"
    and "bindArgs cd ht cmd args = Return (Inr extra)"
    and "length ins = Suc (length extra)"
    and "list_all2 argAssignable (CtxArg ctx # extra) ins"
  shows "Route cd r ctx name args =
     ([CtxArg ctx # extra],
      case f (CtxArg ctx # extra) of
        Panic msg \<Rightarrow> Panic msg
      | Return results \<Rightarrow> extractResults ht results)"
  using assms
  by (simp add: Route_def invokeHandler_def Call_def split: outcome.splits)

lemma Route_bind_error:
  assumes "map_of (commands r) name = Some cmd"
    and "handler cmd = Handler ht body"
    and "bindArgs cd ht cmd args = Return (Inl err)"
  shows "Route cd r ctx name args = ([], Return (VNil, err))"
  using assms by (simp add: Route_def invokeHandler_def)

lemma bindArgs_no_argType:
  "argType cmd = None \<Longrightarrow> bindArgs cd ht cmd args = Return (Inr [])"
  by (simp add: bindArgs_def)

lemma bindArgs_empty:
  assumes "argType cmd = Some t" "ins_of ht = Some ins" "length ins = 2"
  shows "bindArgs cd ht cmd [] = Return (Inr [ValArg (VPtr t (Zero t))])"
  using assms by (simp add: bindArgs_def)

text \<open>
  The normalization of the two outputs, for a handler whose two output types are of a
  kind that has a nil (interface, pointer, slice, map, function): the documented
  signatures \<^verbatim>\<open>(interface{}, error)\<close> and \<^verbatim>\<open>(*R, error)\<close> are of this form.
\<close>

lemma Route_normalizes:
  assumes "map_of (commands r) name = Some cmd"
    and "handler cmd = Handler ht (Some f)"
    and "ins_of ht = Some ins"
    and "bindArgs cd ht cmd args = Return (Inr extra)"
    and "length ins = Suc (length extra)"
    and "list_all2 argAssignable (CtxArg ctx # extra) ins"
    and "f (CtxArg ctx # extra) = Return [r0, r1]"
    and "nillable (Kind_of (Out ht 0))" and "nillable (Kind_of (Out ht 1))"
  shows "Route cd r ctx name args =
     ([CtxArg ctx # extra],
      Return (if isNilValue (Kind_of (Out ht 0)) r0 then VNil else r0,
              if \<not> isNilValue (Kind_of (Out ht 1)) r1 \<and> isError r1 then r1 else VNil))"
  by (simp add: Route_invokes[OF assms(1-6)] assms(7) extractResults_nillable[OF assms(8,9)])

lemma AssignableTo_refl: "AssignableTo t t"
  by (simp add: AssignableTo_def)

text \<open>
  An empty argument list, for a handler that takes its context as \<^verbatim>\<open>*sdk.Context\<close> and
  its argument by pointer: the body is called with a pointer to the zero value of the
  argument type.
\<close>

lemma Route_empty_args:
  assumes "map_of (commands r) name = Some cmd"
    and "handler cmd = Handler ht (Some f)"
    and "ins_of ht = Some [TPtr sdkContext, TPtr t]"
    and "argType cmd = Some t"
  shows "fst (Route cd r ctx name []) = [[CtxArg ctx, ValArg (VPtr t (Zero t))]]"
proof -
  have b: "bindArgs cd ht cmd [] = Return (Inr [ValArg (VPtr t (Zero t))])"
    using assms(3,4) by (simp add: bindArgs_def)
  have l: "length [TPtr sdkContext, TPtr t] = Suc (length [ValArg (VPtr t (Zero t)) :: 'a callarg])"
    by simp
  have a: "list_all2 argAssignable [CtxArg ctx, ValArg (VPtr t (Zero t))] [TPtr sdkContext, TPtr t]"
    by (simp add: argAssignable_def AssignableTo_refl)
  show ?thesis
    by (simp add: Route_invokes[OF assms(1-3) b l a])
qed

text \<open>
  C4. After the handler has been called, Route is to return its two outputs, a nil first
  output as no result and a nil second output as no error. For outputs of a kind that
  has a nil this is \<open>Route_normalizes\<close>. Register accepts a handler whose first output is
  of any type, and whose second output is of any type that implements \<^verbatim>\<open>error\<close>; on an
  output of a kind without nil (a string, an int, a struct) \<^verbatim>\<open>IsNil\<close> panics after the
  handler has run, and Route returns nothing.
\<close>

theorem Route_string_result_panics:
  "Register NewCommandRouter ''greet'' (Handler greetType (Some greetBody)) [] =
     Return (VNil, greetRouter)
   \<and> Route failingCodec greetRouter () ''greet'' [] =
       ([[CtxArg ()]], Panic ''reflect: call of reflect.Value.IsNil on non-nillable Value'')"
  by (simp add: Register_def NewCommandRouter_def greetType_def greetRouter_def NumIn_def
      NumOut_def In_def Out_def sdkContext_def errorInterface_def Implements_def
      defaultMetadata_def detectArgType_def Route_def invokeHandler_def bindArgs_def Call_def
      argAssignable_def AssignableTo_def greetBody_def extractResults_def IsNil_def)

theorem Route_string_result_panics_witness:
  "fst (Route failingCodec greetRouter () ''greet'' []) = [[CtxArg ()]]
   \<and> \<not> (\<exists>res. snd (Route failingCodec greetRouter () ''greet'' []) = Return res)"
  using Route_string_result_panics by simp

text \<open>
  C8. With an empty argument list the handler of a typed-argument command is to be
  called with a pointer to the zero value of the argument type. For a handler that takes
  the argument by pointer this is \<open>Route_empty_args\<close>. Register also accepts a handler
  that takes the argument by value and records its type as the argument type;
  invokeHandler passes a pointer all the same, \<^verbatim>\<open>Call\<close> panics on the argument that is
  not assignable, and the handler is never called.
\<close>

theorem Route_by_value_argument_panics:
  "Register NewCommandRouter ''sum'' (Handler byValueType (Some echoBody)) [] =
     Return (VNil, byValueRouter)
   \<and> Route failingCodec byValueRouter () ''sum'' [] =
       ([], Panic ''reflect: Call using argument of a type not assignable to the parameter'')"
  by (simp add: Register_def NewCommandRouter_def byValueType_def byValueRouter_def NumIn_def
      NumOut_def In_def Out_def sdkContext_def errorInterface_def Implements_def anyType_def
      defaultMetadata_def detectArgType_def Route_def invokeHandler_def bindArgs_def Call_def
      argAssignable_def AssignableTo_def sumArgs_def)

theorem Route_by_value_argument_panics_witness:
  "fst (Route failingCodec byValueRouter () ''sum'' []) = []
   \<and> \<not> (\<exists>res. snd (Route failingCodec byValueRouter () ''sum'' []) = Return res)"
  using Route_by_value_argument_panics by simp

section \<open>The structural coercion: round trip and missing fields\<close>













lemma underlying_struct_kind: "underlying t = TStruct fs \<Longrightarrow> Kind_of t = KStruct"
  by (induction t) auto

lemma decode_struct:
  "underlying t = TStruct fs \<Longrightarrow>
   decode t (JObject jk) =
     (case decodeFields fs jk of Inl err \<Rightarrow> Inl err | Inr vfs \<Rightarrow> Inr (VStruct t vfs))"
  by (induction t) (auto split: sum.splits dest: underlying_struct_kind)















text \<open>The empty keyed object and the nil map give the zero value of a struct shape.\<close>

lemma Zero_struct: "underlying t = TStruct fs \<Longrightarrow> Zero t = VStruct t (zeroFields fs)"
  by (induction t) auto

lemma decodeFields_empty: "decodeFields fs [] = Inr (zeroFields fs)"
  by (induction fs) simp_all

lemma coerce_empty_object:
  "underlying t = TStruct fs \<Longrightarrow> coerceArgs specCodec t (VMap mapStringAny []) = Inr (Zero t)"
  by (simp add: coerceArgs_def specCodec_def decode_struct decodeFields_empty Zero_struct)





end
